theory Spec2Isabelle
  imports Complex_Main
begin

section \<open>JavaScript values\<close>

text \<open>
  The Tester component of \<^verbatim>\<open>src/Tester.js\<close> is a React class component. Its methods
  are embedded as functions that take the component (a record of the fields of
  \<^verbatim>\<open>this\<close>) and return the effects they perform, as a list of events in the order
  they happen, next to the updated component or the value returned. An exception is a
  value of \<open>js_error\<close> on the left of a sum.

  Objects are named by their address, a natural number.
\<close>

type_synonym ref = nat

datatype js_error = TypeError string | Thrown string

text \<open>
  The dynamically typed values the source inspects: the \<^verbatim>\<open>reporter\<close> prop and the
  reporter it becomes. \<open>JSFunction\<close> is any callable, a class included (a class is a
  function in JavaScript); \<open>JSObject\<close> carries the properties that can be read from it.
\<close>

datatype js_value =
    JSUndefined
  | JSNull
  | JSBoolean bool
  | JSNumber int
  | JSString string
  | JSFunction string
  | JSObject "(string \<times> js_value) list"

text \<open>\<^verbatim>\<open>v instanceof Function\<close>\<close>

fun instanceof_Function :: "js_value \<Rightarrow> bool" where
  "instanceof_Function (JSFunction f) = True"
| "instanceof_Function v = False"

text \<open>The truth value \<^verbatim>\<open>||\<close> and \<^verbatim>\<open>if\<close> test.\<close>

fun truthy :: "js_value \<Rightarrow> bool" where
  "truthy JSUndefined = False"
| "truthy JSNull = False"
| "truthy (JSBoolean b) = b"
| "truthy (JSNumber n) = (n \<noteq> 0)"
| "truthy (JSString s) = (s \<noteq> [])"
| "truthy (JSFunction f) = True"
| "truthy (JSObject ps) = True"

text \<open>
  \<^verbatim>\<open>v.name\<close>: reading a property of \<^verbatim>\<open>undefined\<close> or \<^verbatim>\<open>null\<close> throws a TypeError; a
  property that is absent reads as \<^verbatim>\<open>undefined\<close>.
\<close>

fun get_property :: "js_value \<Rightarrow> string \<Rightarrow> js_error + js_value" where
  "get_property JSUndefined name = Inl (TypeError ''Cannot read property of undefined'')"
| "get_property JSNull name = Inl (TypeError ''Cannot read property of null'')"
| "get_property (JSObject ps) name =
     (case map_of ps name of None \<Rightarrow> Inr JSUndefined | Some v \<Rightarrow> Inr v)"
| "get_property v name = Inr JSUndefined"

text \<open>
  What the running program does where the source hands control to it: constructing the
  class of a given name (\<^verbatim>\<open>new\<close> runs its constructor, which may throw, as may \<^verbatim>\<open>new\<close>
  itself on a function that is no constructor), calling a function value, and the
  ToPrimitive conversion of an object (its \<^verbatim>\<open>valueOf\<close> and \<^verbatim>\<open>toString\<close>, which are code of
  the program and may throw).
\<close>

record js_runtime =
  instantiate :: "string \<Rightarrow> js_error + js_value"
  call_function :: "js_value \<Rightarrow> js_error + js_value"
  to_primitive :: "js_value \<Rightarrow> js_error + js_value"

text \<open>
  \<^verbatim>\<open>new v\<close>: only a function can be constructed; on any other value \<^verbatim>\<open>new\<close> throws a
  TypeError.
\<close>

fun js_new :: "js_runtime \<Rightarrow> js_value \<Rightarrow> js_error + js_value" where
  "js_new rt (JSFunction name) = instantiate rt name"
| "js_new rt v = Inl (TypeError ''reporterClass is not a constructor'')"

text \<open>
  \<^verbatim>\<open>v == 'realtime'\<close>. A string is compared as it is. An object (a function is one) is
  first converted with ToPrimitive, so that \<^verbatim>\<open>new String('realtime')\<close> and
  \<^verbatim>\<open>['realtime']\<close> are equal to the literal; a conversion that throws makes the comparison
  throw. \<^verbatim>\<open>undefined\<close> and \<^verbatim>\<open>null\<close> are equal to no string, and a number or a boolean is
  compared with the number the literal converts to, which is NaN and equal to nothing.
\<close>

fun equals_realtime :: "js_runtime \<Rightarrow> js_value \<Rightarrow> js_error + bool" where
  "equals_realtime rt (JSString s) = Inr (s = ''realtime'')"
| "equals_realtime rt (JSObject ps) =
     (case to_primitive rt (JSObject ps) of
        Inl e \<Rightarrow> Inl e
      | Inr (JSString s) \<Rightarrow> Inr (s = ''realtime'')
      | Inr primitive \<Rightarrow> Inr False)"
| "equals_realtime rt (JSFunction f) =
     (case to_primitive rt (JSFunction f) of
        Inl e \<Rightarrow> Inl e
      | Inr (JSString s) \<Rightarrow> Inr (s = ''realtime'')
      | Inr primitive \<Rightarrow> Inr False)"
| "equals_realtime rt v = Inr False"

section \<open>The collaborators of the Tester\<close>

text \<open>
  Modelled from the spec: the Test Case and the Test Scope of \<^verbatim>\<open>TestScope.js\<close>, which is
  not among the sources. A Test Case is a description and a body; a Test Scope
  "aggregates an ordered sequence of Test Cases for one specification module, plus a
  back-reference to the host and the configured wait-time". The body is kept as what it
  does when it is run: it resolves or rejects after a number of milliseconds, or never
  settles.
\<close>

datatype body_behaviour = Resolves nat | Rejects nat string | Never_settles

record test_case =
  description :: string
  body :: body_behaviour

record test_scope =
  component :: ref
  scope_waitTime :: "int option"
  testCases :: "test_case list"

text \<open>\<^verbatim>\<open>new TestScope(component, waitTime)\<close>: a scope with no case registered yet.\<close>

definition new_TestScope :: "ref \<Rightarrow> int option \<Rightarrow> test_scope" where
  "new_TestScope c w = \<lparr> component = c, scope_waitTime = w, testCases = [] \<rparr>"

text \<open>
  A specification function is user code. It is called with a scope and returns a promise;
  what the Tester sees of it is whether that promise fulfils, and then the scope with the
  cases the function has registered, or whether the call throws or the promise rejects.
\<close>

type_synonym spec = "test_scope \<Rightarrow> js_error + test_scope"

text \<open>
  The \<^verbatim>\<open>children\<close> prop as React passes it: a single element, a text, an array of nodes
  (two or more JSX children, or an array expression), or nothing.
\<close>

datatype react_node =
    ReactElement string
  | ReactText string
  | ReactArray "react_node list"
  | ReactEmpty

section \<open>Props and their defaults\<close>

text \<open>An option that is not supplied is \<^verbatim>\<open>undefined\<close>: \<open>None\<close>, or \<open>JSUndefined\<close>.\<close>

record tester_props =
  store :: "ref option"
  specs :: "spec list option"
  reporter :: js_value
  waitTime :: "int option"
  startDelay :: "int option"
  sendReport :: "bool option"
  only :: "string list option"
  clearAsyncStorage :: "bool option"
  children :: react_node

text \<open>\<^verbatim>\<open>Tester.defaultProps = { clearAsyncStorage: false, startDelay: 0, waitTime: 2000 }\<close>\<close>

record default_props =
  default_clearAsyncStorage :: bool
  default_startDelay :: int
  default_waitTime :: int

definition defaultProps :: default_props where
  "defaultProps =
     \<lparr> default_clearAsyncStorage = False, default_startDelay = 0, default_waitTime = 2000 \<rparr>"

text \<open>
  React resolves the defaults when the element is created: a prop whose supplied value is
  \<^verbatim>\<open>undefined\<close> takes the value \<^verbatim>\<open>defaultProps\<close> gives it.
\<close>

definition or_default :: "'a option \<Rightarrow> 'a \<Rightarrow> 'a option" where
  "or_default supplied d = (case supplied of None \<Rightarrow> Some d | Some v \<Rightarrow> Some v)"

definition resolveDefaultProps :: "default_props \<Rightarrow> tester_props \<Rightarrow> tester_props" where
  "resolveDefaultProps d p =
     p \<lparr> clearAsyncStorage := or_default (clearAsyncStorage p) (default_clearAsyncStorage d),
         startDelay := or_default (startDelay p) (default_startDelay d),
         waitTime := or_default (waitTime p) (default_waitTime d) \<rparr>"

section \<open>The Tester component\<close>

text \<open>
  The arguments of \<^verbatim>\<open>new TestRunner(this, testSuites, startDelay, this.reporter, sendReport, only)\<close>.
  A suite is a scope object: its address and its content when it is handed over.
\<close>

record runner_args =
  arg_component :: ref
  arg_testSuites :: "(ref \<times> test_scope) list"
  arg_startDelay :: "int option"
  arg_reporter :: js_value
  arg_sendReport :: "bool option"
  arg_only :: "string list option"

text \<open>What a method does to the world outside the component, in the order it happens.\<close>

datatype event =
    Console_warn string "js_error option"
  | New_reporter js_value
  | New_TestScope ref ref "int option"
  | Call_spec nat ref
  | Spec_fulfilled nat
  | New_TestRunner runner_args
  | Call_run runner_args
  | Call_onStart
  | Call_getAllKeys
  | Call_multiRemove "string list"

record tester_state =
  key :: real

record tester =
  self :: ref
  props :: tester_props
  state :: tester_state
  testHookStore :: "ref option"
  this_reporter :: js_value

subsection \<open>constructor\<close>

text \<open>The class imported from \<^verbatim>\<open>./Reporter\<close>, the built-in sink.\<close>

definition Reporter :: js_value where
  "Reporter = JSFunction ''Reporter''"

definition deprecation_message :: string where
  "deprecation_message =
     ''Deprecation warning: support for custom function'' @
     ''reporters will soon be deprecated. Cavy supports custom '' @
     ''class based reporters. For more info, see the '' @
     ''documentation here: '' @
     ''https://cavy.app/docs/guides/writing-custom-reporters''"

text \<open>
  \<open>rt\<close> is the running program; \<open>this\<close> is the address of the component under
  construction and \<open>random\<close> the number \<^verbatim>\<open>Math.random()\<close> returns. The props are those
  React passes, defaults resolved. A class is a function, so a class given as the
  \<^verbatim>\<open>reporter\<close> takes the first branch.
\<close>

definition constructor_Tester ::
  "js_runtime \<Rightarrow> ref \<Rightarrow> real \<Rightarrow> tester_props \<Rightarrow> event list \<times> (js_error + tester)" where
  "constructor_Tester rt this random p =
     (let t = \<lparr> self = this, props = p, state = \<lparr> key = random \<rparr>,
                 testHookStore = store p, this_reporter = JSUndefined \<rparr>
      in if instanceof_Function (reporter p)
         then ([Console_warn deprecation_message None],
               Inr (t \<lparr> this_reporter := reporter p \<rparr>))
         else let reporterClass = (if truthy (reporter p) then reporter p else Reporter)
              in (case js_new rt reporterClass of
                    Inl e \<Rightarrow> ([New_reporter reporterClass], Inl e)
                  | Inr sink \<Rightarrow>
                      ([New_reporter reporterClass], Inr (t \<lparr> this_reporter := sink \<rparr>))))"

subsection \<open>runTests\<close>

text \<open>
  \<^verbatim>\<open>runTests\<close> is an async function: it runs until its first \<^verbatim>\<open>await\<close> inside the call
  that starts it, and each \<^verbatim>\<open>await\<close> hands control back to the caller; what follows the
  \<^verbatim>\<open>await\<close> runs in a later turn of the event loop, once the awaited promise has
  fulfilled (an \<^verbatim>\<open>await\<close> never continues in the same turn, whatever it is given). Its
  effects are therefore returned in turns: the events of the starting call, then the
  events of each later turn, then the way the promise of \<^verbatim>\<open>runTests\<close> settles.

  The loop \<^verbatim>\<open>for (var i = 0; i < specs.length; i++)\<close> at index \<open>i\<close>, the specs from \<open>i\<close> on
  still to come: \<open>a\<close> is the next unused address, which \<^verbatim>\<open>new TestScope\<close> takes. When a
  spec throws or its promise rejects, \<^verbatim>\<open>runTests\<close> rejects with that error and does
  nothing more: the source has no handler.
\<close>

text \<open>
  \<^verbatim>\<open>new TestRunner(this, testSuites, startDelay, this.reporter, sendReport, only)\<close>, the
  last four read from the props and the component.
\<close>

definition runner_for :: "tester \<Rightarrow> (ref \<times> test_scope) list \<Rightarrow> runner_args" where
  "runner_for t testSuites =
     \<lparr> arg_component = self t, arg_testSuites = testSuites,
       arg_startDelay = startDelay (props t), arg_reporter = this_reporter t,
       arg_sendReport = sendReport (props t), arg_only = only (props t) \<rparr>"

fun runTests_loop ::
  "tester \<Rightarrow> spec list \<Rightarrow> nat \<Rightarrow> ref \<Rightarrow> (ref \<times> test_scope) list
     \<Rightarrow> event list \<times> event list list \<times> (js_error + unit)" where
  "runTests_loop t [] i a testSuites =
     (let runner = runner_for t testSuites
      in ([New_TestRunner runner, Call_run runner], [], Inr ()))"
| "runTests_loop t (s # rest) i a testSuites =
     (let scope = new_TestScope (self t) (waitTime (props t));
          now = [New_TestScope a (self t) (waitTime (props t)), Call_spec i a]
      in case s scope of
           Inl e \<Rightarrow> (now, [], Inl e)
         | Inr registered \<Rightarrow>
             (case runTests_loop t rest (Suc i) (Suc a) (testSuites @ [(a, registered)]) of
                (resumed, later, outcome) \<Rightarrow>
                  (now, (Spec_fulfilled i # resumed) # later, outcome)))"

text \<open>Without a \<^verbatim>\<open>specs\<close> option, \<^verbatim>\<open>specs.length\<close> throws.\<close>

definition runTests ::
  "tester \<Rightarrow> ref \<Rightarrow> event list \<times> event list list \<times> (js_error + unit)" where
  "runTests t a =
     (case specs (props t) of
        None \<Rightarrow> ([], [], Inl (TypeError ''Cannot read property length of undefined''))
      | Some ss \<Rightarrow> runTests_loop t ss 0 a [])"

text \<open>The events of \<^verbatim>\<open>runTests\<close> in the order they happen, turn after turn.\<close>

definition in_order :: "event list \<times> event list list \<times> 'a \<Rightarrow> event list" where
  "in_order turns = (case turns of (now, later, outcome) \<Rightarrow> now @ concat later)"

definition runTests_trace :: "tester \<Rightarrow> ref \<Rightarrow> event list" where
  "runTests_trace t a = in_order (runTests t a)"

subsection \<open>componentDidMount\<close>

text \<open>
  \<^verbatim>\<open>this.runTests()\<close> is not awaited: the first turn of \<^verbatim>\<open>runTests\<close> happens inside the
  call, the test of the reporter follows, and the later turns of \<^verbatim>\<open>runTests\<close> happen after
  \<^verbatim>\<open>componentDidMount\<close> has returned (or thrown). A function reporter stops the
  conjunction before \<^verbatim>\<open>this.reporter.type\<close> is read.

  \<^verbatim>\<open>this.reporter.onStart()\<close> reads the property and calls what it finds: when that is no
  function the call throws a TypeError and nothing is invoked; when it is one, it is
  invoked (the event), and an exception it throws is the exception of
  \<^verbatim>\<open>componentDidMount\<close>.
\<close>

definition call_onStart :: "js_runtime \<Rightarrow> js_value \<Rightarrow> event list \<times> (js_error + unit)" where
  "call_onStart rt sink =
     (case get_property sink ''onStart'' of
        Inl e \<Rightarrow> ([], Inl e)
      | Inr f \<Rightarrow>
          if instanceof_Function f
          then (case call_function rt f of
                  Inl e \<Rightarrow> ([Call_onStart], Inl e)
                | Inr returned \<Rightarrow> ([Call_onStart], Inr ()))
          else ([], Inl (TypeError ''this.reporter.onStart is not a function'')))"

definition componentDidMount ::
  "js_runtime \<Rightarrow> tester \<Rightarrow> ref \<Rightarrow> event list \<times> (js_error + unit)" where
  "componentDidMount rt t a =
     (case runTests t a of
        (now, later, outcome) \<Rightarrow>
          if instanceof_Function (this_reporter t) then (now @ concat later, Inr ())
          else (case get_property (this_reporter t) ''type'' of
                  Inl e \<Rightarrow> (now @ concat later, Inl e)
                | Inr reporter_type \<Rightarrow>
                    (case equals_realtime rt reporter_type of
                       Inl e \<Rightarrow> (now @ concat later, Inl e)
                     | Inr is_realtime \<Rightarrow>
                         if is_realtime
                         then (case call_onStart rt (this_reporter t) of
                                 (called, result) \<Rightarrow> (now @ called @ concat later, result))
                         else (now @ concat later, Inr ()))))"

subsection \<open>reRender\<close>

text \<open>
  \<^verbatim>\<open>this.setState({key: k})\<close> merges the object into the state, whose only field is the
  key. \<open>random\<close> is the number \<^verbatim>\<open>Math.random()\<close> returns to this call.
\<close>

definition setState_key :: "real \<Rightarrow> tester \<Rightarrow> tester" where
  "setState_key k t = t \<lparr> state := (state t) \<lparr> key := k \<rparr> \<rparr>"

definition reRender :: "real \<Rightarrow> tester \<Rightarrow> tester" where
  "reRender random t = setState_key random t"

subsection \<open>clearAsync\<close>

text \<open>
  AsyncStorage, the key-value store of the host: its entries, and whether its two calls
  fail when they are made (each returns a promise that can reject).
\<close>

record async_storage =
  entries :: "(string \<times> string) list"
  getAllKeys_fails :: "js_error option"
  multiRemove_fails :: "js_error option"

definition getAllKeys :: "async_storage \<Rightarrow> js_error + string list" where
  "getAllKeys st =
     (case getAllKeys_fails st of Some e \<Rightarrow> Inl e | None \<Rightarrow> Inr (map fst (entries st)))"

definition multiRemove :: "string list \<Rightarrow> async_storage \<Rightarrow> js_error + async_storage" where
  "multiRemove keys st =
     (case multiRemove_fails st of
        Some e \<Rightarrow> Inl e
      | None \<Rightarrow> Inr (st \<lparr> entries := filter (\<lambda>(k, v). k \<notin> set keys) (entries st) \<rparr>))"

text \<open>
  The body of the \<^verbatim>\<open>try\<close>: \<^verbatim>\<open>await AsyncStorage.getAllKeys().then(AsyncStorage.multiRemove)\<close>,
  with the calls made, the store it leaves and the error that reaches the \<^verbatim>\<open>catch\<close>.
\<close>

definition clear_attempt :: "async_storage \<Rightarrow> event list \<times> async_storage \<times> js_error option" where
  "clear_attempt st =
     (case getAllKeys st of
        Inl e \<Rightarrow> ([Call_getAllKeys], st, Some e)
      | Inr keys \<Rightarrow>
          (case multiRemove keys st of
             Inl e \<Rightarrow> ([Call_getAllKeys, Call_multiRemove keys], st, Some e)
           | Inr st' \<Rightarrow> ([Call_getAllKeys, Call_multiRemove keys], st', None)))"

definition clearAsync ::
  "tester \<Rightarrow> async_storage \<Rightarrow> event list \<times> async_storage \<times> (js_error + unit)" where
  "clearAsync t st =
     (if clearAsyncStorage (props t) = Some True
      then (case clear_attempt st of
              (calls, st', None) \<Rightarrow> (calls, st', Inr ())
            | (calls, st', Some e) \<Rightarrow>
                (calls @ [Console_warn ''[Cavy] failed to clear AsyncStorage:'' (Some e)],
                 st', Inr ()))
      else ([], st, Inr ()))"

subsection \<open>render\<close>

text \<open>
  \<^verbatim>\<open>Children.only\<close> of React returns its argument when that is a single React element and
  throws otherwise.
\<close>

fun Children_only :: "react_node \<Rightarrow> js_error + react_node" where
  "Children_only (ReactElement e) = Inr (ReactElement e)"
| "Children_only c =
     Inl (Thrown ''React.Children.only expected to receive a single React element child.'')"

text \<open>\<^verbatim>\<open><TesterContext.Provider key={...} value={...}>child</TesterContext.Provider>\<close>\<close>

record provider_element =
  element_key :: real
  element_value :: "ref option"
  element_child :: react_node

definition render :: "tester \<Rightarrow> js_error + provider_element" where
  "render t =
     (case Children_only (children (props t)) of
        Inl e \<Rightarrow> Inl e
      | Inr child \<Rightarrow>
          Inr \<lparr> element_key = key (state t), element_value = testHookStore t,
                element_child = child \<rparr>)"

text \<open>
  React keeps the subtree of an element whose key is the one it rendered before, and
  unmounts it and mounts a new one when the key differs.
\<close>

definition remounts :: "provider_element \<Rightarrow> provider_element \<Rightarrow> bool" where
  "remounts before after = (element_key before \<noteq> element_key after)"

subsection \<open>The component in its world\<close>

text \<open>
  Modelled from the spec: the Element Registry of \<^verbatim>\<open>TestHookStore.js\<close>, which is not
  among the sources, "a process-wide mapping from string identifiers to references to
  currently-mounted, discoverable UI elements". The registries live in the heap, at the
  address the \<^verbatim>\<open>store\<close> prop holds.
\<close>

type_synonym hook_store = "(string \<times> ref) list"

record world =
  runtime :: js_runtime
  registries :: "ref \<Rightarrow> hook_store option"
  asyncStorage :: async_storage
  next_address :: ref
  happened :: "event list"

datatype method_call =
    Do_componentDidMount
  | Do_runTests
  | Do_reRender real
  | Do_clearAsync
  | Do_render

fun is_New_TestScope :: "event \<Rightarrow> bool" where
  "is_New_TestScope (New_TestScope a c w) = True"
| "is_New_TestScope ev = False"

definition record_events :: "event list \<Rightarrow> world \<Rightarrow> world" where
  "record_events evs w =
     w \<lparr> happened := happened w @ evs,
         next_address := next_address w + length (filter is_New_TestScope evs) \<rparr>"

fun perform :: "method_call \<Rightarrow> tester \<times> world \<Rightarrow> tester \<times> world" where
  "perform Do_componentDidMount (t, w) =
     (t, record_events (fst (componentDidMount (runtime w) t (next_address w))) w)"
| "perform Do_runTests (t, w) = (t, record_events (runTests_trace t (next_address w)) w)"
| "perform (Do_reRender random) (t, w) = (reRender random t, w)"
| "perform Do_clearAsync (t, w) =
     (case clearAsync t (asyncStorage w) of
        (evs, st', outcome) \<Rightarrow> (t, record_events evs (w \<lparr> asyncStorage := st' \<rparr>)))"
| "perform Do_render (t, w) = (t, w)"

definition perform_all :: "method_call list \<Rightarrow> tester \<times> world \<Rightarrow> tester \<times> world" where
  "perform_all calls s = fold perform calls s"

subsection \<open>Notions the properties are stated with\<close>

text \<open>The scope every spec is called with, and what it is to fulfil on it.\<close>

definition fresh_scope :: "tester \<Rightarrow> test_scope" where
  "fresh_scope t = new_TestScope (self t) (waitTime (props t))"

definition fulfils :: "tester \<Rightarrow> spec \<Rightarrow> bool" where
  "fulfils t s = (\<not> isl (s (fresh_scope t)))"

text \<open>The three events of a spec that fulfils: its scope, its call, the end of the await.\<close>

definition spec_events :: "tester \<Rightarrow> nat \<Rightarrow> ref \<Rightarrow> event list" where
  "spec_events t i a =
     [New_TestScope a (self t) (waitTime (props t)), Call_spec i a, Spec_fulfilled i]"

text \<open>A runner has a test case to execute when one of its suites holds one.\<close>

definition has_test_case :: "runner_args \<Rightarrow> bool" where
  "has_test_case r = list_ex (\<lambda>(a, s). testCases s \<noteq> []) (arg_testSuites r)"

text \<open>The events of the runner: its construction and the call of its \<^verbatim>\<open>run\<close>.\<close>

fun is_runner_event :: "event \<Rightarrow> bool" where
  "is_runner_event (New_TestRunner r) = True"
| "is_runner_event (Call_run r) = True"
| "is_runner_event ev = False"

subsection \<open>Sample data\<close>

text \<open>
  A realtime sink, and a program in which constructing \<^verbatim>\<open>Reporter\<close> or the class
  \<^verbatim>\<open>CustomReporter\<close> yields such a sink and no other class exists, functions return
  \<^verbatim>\<open>undefined\<close>, and an object converts to the string of a plain object.
\<close>

definition sample_sink :: js_value where
  "sample_sink =
     JSObject [(''type'', JSString ''realtime''), (''onStart'', JSFunction ''onStart'')]"

definition sample_runtime :: js_runtime where
  "sample_runtime =
     \<lparr> instantiate = (\<lambda>name.
         if name = ''Reporter'' \<or> name = ''CustomReporter'' then Inr sample_sink
         else Inl (TypeError ''reporterClass is not a constructor'')),
       call_function = (\<lambda>f. Inr JSUndefined),
       to_primitive = (\<lambda>v. Inr (JSString ''[object Object]'')) \<rparr>"

text \<open>Three specs: one registers a case, one registers nothing, one throws.\<close>

definition sample_spec_login :: spec where
  "sample_spec_login s =
     Inr (s \<lparr> testCases := testCases s @ [\<lparr> description = ''logs in'', body = Resolves 10 \<rparr>] \<rparr>)"

definition sample_spec_empty :: spec where
  "sample_spec_empty s = Inr s"

definition sample_spec_throws :: spec where
  "sample_spec_throws s = Inl (Thrown ''spec failed'')"

definition sample_props :: tester_props where
  "sample_props =
     \<lparr> store = Some 7, specs = Some [sample_spec_login, sample_spec_empty],
       reporter = JSUndefined, waitTime = None, startDelay = None, sendReport = None,
       only = None, clearAsyncStorage = None, children = ReactElement ''App'' \<rparr>"

text \<open>The component React makes of the sample props, at address 1 with the key 1/2.\<close>

definition sample_tester :: tester where
  "sample_tester =
     \<lparr> self = 1, props = resolveDefaultProps defaultProps sample_props,
       state = \<lparr> key = 1 / 2 \<rparr>, testHookStore = Some 7, this_reporter = sample_sink \<rparr>"

text \<open>The same component with a spec that throws between the two.\<close>

definition sample_tester_throwing :: tester where
  "sample_tester_throwing =
     sample_tester \<lparr> props := (props sample_tester)
       \<lparr> specs := Some [sample_spec_login, sample_spec_throws, sample_spec_empty] \<rparr> \<rparr>"

text \<open>The same component with \<^verbatim>\<open>clearAsyncStorage\<close> set.\<close>

definition sample_tester_clearing :: tester where
  "sample_tester_clearing =
     sample_tester \<lparr> props := (props sample_tester) \<lparr> clearAsyncStorage := Some True \<rparr> \<rparr>"

definition sample_storage :: async_storage where
  "sample_storage =
     \<lparr> entries = [(''token'', ''abc''), (''user'', ''ada'')],
       getAllKeys_fails = None, multiRemove_fails = None \<rparr>"

definition sample_world :: world where
  "sample_world =
     \<lparr> runtime = sample_runtime,
       registries = (\<lambda>a. if a = 7 then Some [(''LoginButton'', 20)] else None),
       asyncStorage = sample_storage, next_address = 10, happened = [] \<rparr>"

section \<open>The scheduler and its report\<close>

text \<open>
  Modelled from the spec: the Scheduler of \<^verbatim>\<open>TestRunner.js\<close>, which is not among the
  sources, as section 4.4 of the spec gives it. All cases of all scopes are flattened in
  order, each tagged with the index of its scope and its index there; a case that no
  \<^verbatim>\<open>only\<close> filter matches is reported as skipped; every other case is run against the
  timeout and reported as passed, failed or timed out; the report holds the results in
  order and the counts. The counts the property of section 8 names are fields of the
  report.
\<close>

datatype status = Passed | Failed | TimedOut | Skipped

record test_run_result =
  result_description :: string
  suiteIndex :: nat
  caseIndex :: nat
  status :: status
  error :: "string option"
  durationMs :: nat

record report =
  results :: "test_run_result list"
  totalCount :: nat
  passedCount :: nat
  failedCount :: nat
  timedOutCount :: nat
  skippedCount :: nat

definition tag_cases :: "nat \<Rightarrow> test_scope \<Rightarrow> (nat \<times> nat \<times> test_case) list" where
  "tag_cases si s = map (\<lambda>(ci, c). (si, ci, c)) (enumerate 0 (testCases s))"

definition flatten_cases :: "test_scope list \<Rightarrow> (nat \<times> nat \<times> test_case) list" where
  "flatten_cases suites = concat (map (\<lambda>(si, s). tag_cases si s) (enumerate 0 suites))"

fun has_prefix :: "string \<Rightarrow> string \<Rightarrow> bool" where
  "has_prefix [] ys = True"
| "has_prefix (x # xs) [] = False"
| "has_prefix (x # xs) (y # ys) = (x = y \<and> has_prefix xs ys)"

fun contains_substring :: "string \<Rightarrow> string \<Rightarrow> bool" where
  "contains_substring [] f = (f = [])"
| "contains_substring (c # cs) f = (has_prefix f (c # cs) \<or> contains_substring cs f)"

definition matches_only :: "string list option \<Rightarrow> test_case \<Rightarrow> bool" where
  "matches_only only_filter c =
     (case only_filter of
        None \<Rightarrow> True
      | Some names \<Rightarrow> list_ex (contains_substring (description c)) names)"

text \<open>
  The race of the body against the timeout: the body settles first when it settles
  before the timeout elapses.
\<close>

definition run_case :: "nat \<Rightarrow> body_behaviour \<Rightarrow> status \<times> string option \<times> nat" where
  "run_case timeout b =
     (case b of
        Resolves d \<Rightarrow> if d < timeout then (Passed, None, d) else (TimedOut, None, timeout)
      | Rejects d message \<Rightarrow>
          if d < timeout then (Failed, Some message, d) else (TimedOut, None, timeout)
      | Never_settles \<Rightarrow> (TimedOut, None, timeout))"

definition result_of_case ::
  "string list option \<Rightarrow> nat \<Rightarrow> nat \<times> nat \<times> test_case \<Rightarrow> test_run_result" where
  "result_of_case only_filter timeout tagged =
     (case tagged of
        (si, ci, c) \<Rightarrow>
          if matches_only only_filter c
          then (case run_case timeout (body c) of
                  (st, err, d) \<Rightarrow>
                    \<lparr> result_description = description c, suiteIndex = si, caseIndex = ci,
                      status = st, error = err, durationMs = d \<rparr>)
          else \<lparr> result_description = description c, suiteIndex = si, caseIndex = ci,
                 status = Skipped, error = None, durationMs = 0 \<rparr>)"

definition count_status :: "status \<Rightarrow> test_run_result list \<Rightarrow> nat" where
  "count_status st rs = length (filter (\<lambda>r. status r = st) rs)"

definition run_report :: "string list option \<Rightarrow> nat \<Rightarrow> test_scope list \<Rightarrow> report" where
  "run_report only_filter timeout suites =
     (let declared = flatten_cases suites;
          rs = map (result_of_case only_filter timeout) declared
      in \<lparr> results = rs, totalCount = length declared,
           passedCount = count_status Passed rs, failedCount = count_status Failed rs,
           timedOutCount = count_status TimedOut rs,
           skippedCount = count_status Skipped rs \<rparr>)"

section \<open>Configuration\<close>

text \<open>
  C6. When the options are omitted, the props the component receives have
  \<^verbatim>\<open>waitTime\<close> 2000, \<^verbatim>\<open>startDelay\<close> 0 and \<^verbatim>\<open>clearAsyncStorage\<close> false, whatever the
  other options are.
\<close>

theorem defaultProps_when_omitted:
  "waitTime (resolveDefaultProps defaultProps (p \<lparr> waitTime := None \<rparr>)) = Some 2000
   \<and> startDelay (resolveDefaultProps defaultProps (p \<lparr> startDelay := None \<rparr>)) = Some 0
   \<and> clearAsyncStorage (resolveDefaultProps defaultProps (p \<lparr> clearAsyncStorage := None \<rparr>))
       = Some False"
  by (simp add: resolveDefaultProps_def defaultProps_def or_default_def)

text \<open>The three branches of the constructor.\<close>

lemma constructor_keeps_function:
  "instanceof_Function (reporter p) \<Longrightarrow>
     constructor_Tester rt this random p =
       ([Console_warn deprecation_message None],
        Inr \<lparr> self = this, props = p, state = \<lparr> key = random \<rparr>,
              testHookStore = store p, this_reporter = reporter p \<rparr>)"
  by (simp add: constructor_Tester_def Let_def)

lemma constructor_throws_on_other_value:
  "\<not> instanceof_Function (reporter p) \<Longrightarrow> truthy (reporter p) \<Longrightarrow>
     constructor_Tester rt this random p =
       ([New_reporter (reporter p)], Inl (TypeError ''reporterClass is not a constructor''))"
  by (cases "reporter p") (simp_all add: constructor_Tester_def Let_def)

lemma constructor_instantiates_default:
  "\<not> truthy (reporter p) \<Longrightarrow>
     constructor_Tester rt this random p =
       ([New_reporter Reporter],
        map_sum id
          (\<lambda>sink. \<lparr> self = this, props = p, state = \<lparr> key = random \<rparr>,
                     testHookStore = store p, this_reporter = sink \<rparr>)
          (instantiate rt ''Reporter''))"
  by (cases "reporter p"; cases "instantiate rt ''Reporter''")
     (simp_all add: constructor_Tester_def Let_def Reporter_def)

text \<open>
  C5. The constructor does not instantiate a sink class. A class is a function, so the
  class \<^verbatim>\<open>CustomReporter\<close>, which \<^verbatim>\<open>new\<close> makes a realtime sink of, is kept as it is after
  the deprecation warning, and \<^verbatim>\<open>new\<close> is not applied; the branch that applies \<^verbatim>\<open>new\<close> to
  the option is reached only by values that are no functions, such as a sink object, and
  there \<^verbatim>\<open>new\<close> throws. Only the built-in \<open>Reporter\<close> is ever instantiated.
\<close>

theorem sink_class_is_not_instantiated:
  "js_new sample_runtime (JSFunction ''CustomReporter'') = Inr sample_sink
   \<and> constructor_Tester sample_runtime 1 (1 / 2)
        (sample_props \<lparr> reporter := JSFunction ''CustomReporter'' \<rparr>)
      = ([Console_warn deprecation_message None],
         Inr \<lparr> self = 1, props = sample_props \<lparr> reporter := JSFunction ''CustomReporter'' \<rparr>,
               state = \<lparr> key = 1 / 2 \<rparr>, testHookStore = Some 7,
               this_reporter = JSFunction ''CustomReporter'' \<rparr>)
   \<and> constructor_Tester sample_runtime 1 (1 / 2) (sample_props \<lparr> reporter := sample_sink \<rparr>)
      = ([New_reporter sample_sink], Inl (TypeError ''reporterClass is not a constructor''))
   \<and> constructor_Tester sample_runtime 1 (1 / 2) sample_props
      = ([New_reporter Reporter],
         Inr \<lparr> self = 1, props = sample_props, state = \<lparr> key = 1 / 2 \<rparr>,
               testHookStore = Some 7, this_reporter = sample_sink \<rparr>)"
  by (simp add: constructor_Tester_def Let_def Reporter_def sample_runtime_def sample_sink_def
        sample_props_def)

section \<open>The turns of runTests\<close>

text \<open>
  The events of the loop in closed form: the specs that fulfil, up to the first that does
  not, each contribute their three events; then comes the runner when every spec has
  fulfilled, and otherwise the scope and the call of the spec that failed, after which
  nothing happens.
\<close>

lemma in_order_simp: "in_order (now, later, outcome) = now @ concat later"
  by (simp add: in_order_def)

lemma loop_trace_closed_form:
  "in_order (runTests_loop t ss i a suites) =
     (let k = length (takeWhile (fulfils t) ss) in
      concat (map (\<lambda>j. spec_events t (i + j) (a + j)) [0..<k]) @
      (if k = length ss
       then [New_TestRunner (runner_for t (suites @ map (\<lambda>j. (a + j, projr ((ss ! j) (fresh_scope t)))) [0..<k])),
             Call_run (runner_for t (suites @ map (\<lambda>j. (a + j, projr ((ss ! j) (fresh_scope t)))) [0..<k]))]
       else [New_TestScope (a + k) (self t) (waitTime (props t)), Call_spec (i + k) (a + k)]))"
proof (induction ss arbitrary: i a suites)
  case Nil
  show ?case by (simp add: Let_def in_order_simp)
next
  case (Cons s rest)
  show ?case
  proof (cases "s (fresh_scope t)")
    case (Inl e)
    then show ?thesis by (simp add: fulfils_def fresh_scope_def in_order_simp)
  next
    case (Inr reg)
    have up: "[0..<Suc k] = 0 # map Suc [0..<k]" for k
      by (simp add: upt_conv_Cons map_Suc_upt del: upt_Suc)
    from Inr show ?thesis
      using Cons.IH [of "Suc i" "Suc a" "suites @ [(a, reg)]"]
      by (simp add: fulfils_def fresh_scope_def Let_def up spec_events_def comp_def in_order_def
               split: prod.splits del: upt_Suc)
  qed
qed

lemma loop_specs_before_runner:
  assumes "in_order (runTests_loop t ss i a suites) = pre @ ev # post"
    and "is_runner_event ev"
  shows "\<forall>j < length ss. Call_spec (i + j) (a + j) \<in> set pre \<and> Spec_fulfilled (i + j) \<in> set pre"
  using assms
proof (induction ss arbitrary: i a suites pre)
  case Nil
  then show ?case by simp
next
  case (Cons s rest)
  show ?case
  proof (cases "s (fresh_scope t)")
    case (Inl e)
    with Cons.prems show ?thesis
      by (auto simp: fresh_scope_def Cons_eq_append_conv in_order_simp)
  next
    case (Inr reg)
    obtain resumed later outcome where
      rest: "runTests_loop t rest (Suc i) (Suc a) (suites @ [(a, reg)]) = (resumed, later, outcome)"
      by (cases "runTests_loop t rest (Suc i) (Suc a) (suites @ [(a, reg)])") auto
    from Cons.prems Inr rest
    have eq: "New_TestScope a (self t) (waitTime (props t)) # Call_spec i a # Spec_fulfilled i
                # (resumed @ concat later) = pre @ ev # post"
      by (simp add: fresh_scope_def in_order_simp)
    with Cons.prems(2) obtain pre' where
      pre: "pre = New_TestScope a (self t) (waitTime (props t)) # Call_spec i a # Spec_fulfilled i # pre'"
      and tail: "resumed @ concat later = pre' @ ev # post"
      by (auto simp: Cons_eq_append_conv)
    from tail rest Cons.prems(2)
    have ih: "\<forall>j < length rest. Call_spec (Suc i + j) (Suc a + j) \<in> set pre'
                \<and> Spec_fulfilled (Suc i + j) \<in> set pre'"
      using Cons.IH [of "Suc i" "Suc a" "suites @ [(a, reg)]" pre'] by (simp add: in_order_simp)
    show ?thesis
    proof (intro allI impI)
      fix j assume "j < length (s # rest)"
      then show "Call_spec (i + j) (a + j) \<in> set pre \<and> Spec_fulfilled (i + j) \<in> set pre"
        using ih pre by (cases j) auto
    qed
  qed
qed

lemma loop_no_onStart:
  "Call_onStart \<notin> set (in_order (runTests_loop t ss i a suites))"
  unfolding loop_trace_closed_form by (auto simp: Let_def spec_events_def)

lemma loop_first_turn_run:
  "Call_run r \<in> set (fst (runTests_loop t ss i a suites)) \<Longrightarrow> arg_testSuites r = suites"
  by (cases ss) (auto simp: Let_def runner_for_def split: sum.splits prod.splits)

lemma split_after_prefix:
  assumes "xs @ ys = pre @ e # post" and "e \<notin> set xs"
  shows "\<exists>pre'. pre = xs @ pre' \<and> ys = pre' @ e # post"
  using assms by (auto simp: append_eq_append_conv2 append_eq_Cons_conv)


text \<open>The sample component, evaluated.\<close>

lemmas sample_defs =
  sample_tester_def sample_tester_throwing_def sample_tester_clearing_def sample_props_def resolveDefaultProps_def
  defaultProps_def or_default_def sample_spec_login_def sample_spec_empty_def
  sample_spec_throws_def new_TestScope_def

lemma sample_trace:
  "runTests_trace sample_tester 10 =
     [New_TestScope 10 1 (Some 2000), Call_spec 0 10, Spec_fulfilled 0,
      New_TestScope 11 1 (Some 2000), Call_spec 1 11, Spec_fulfilled 1] @
     New_TestRunner (runner_for sample_tester
        [(10, \<lparr> component = 1, scope_waitTime = Some 2000,
                 testCases = [\<lparr> description = ''logs in'', body = Resolves 10 \<rparr>] \<rparr>),
         (11, \<lparr> component = 1, scope_waitTime = Some 2000, testCases = [] \<rparr>)]) #
     [Call_run (runner_for sample_tester
        [(10, \<lparr> component = 1, scope_waitTime = Some 2000,
                 testCases = [\<lparr> description = ''logs in'', body = Resolves 10 \<rparr>] \<rparr>),
         (11, \<lparr> component = 1, scope_waitTime = Some 2000, testCases = [] \<rparr>)])]"
  by (simp add: runTests_trace_def runTests_def sample_defs in_order_def Let_def)

lemma sample_trace_throwing:
  "runTests_trace sample_tester_throwing 10 =
     [New_TestScope 10 1 (Some 2000), Call_spec 0 10, Spec_fulfilled 0,
      New_TestScope 11 1 (Some 2000), Call_spec 1 11]"
  by (simp add: runTests_trace_def runTests_def sample_defs in_order_def Let_def)

text \<open>
  C1. Whenever \<^verbatim>\<open>runTests\<close> constructs the test runner or calls its \<^verbatim>\<open>run\<close>, every
  spec of the \<^verbatim>\<open>specs\<close> option has been called before, and the await on its promise
  has fulfilled before: no case runs while a spec is still to register its cases.
\<close>

theorem runner_after_all_specs:
  assumes "specs (props t) = Some ss"
    and "runTests_trace t a = pre @ ev # post"
    and "is_runner_event ev"
  shows "\<forall>i < length ss. Call_spec i (a + i) \<in> set pre \<and> Spec_fulfilled i \<in> set pre"
  using loop_specs_before_runner [of t ss 0 a "[]" pre ev post] assms
  by (simp add: runTests_trace_def runTests_def)

theorem runner_after_all_specs_witness:
  "specs (props sample_tester) = Some [sample_spec_login, sample_spec_empty]
   \<and> runTests_trace sample_tester 10 =
       [New_TestScope 10 1 (Some 2000), Call_spec 0 10, Spec_fulfilled 0,
        New_TestScope 11 1 (Some 2000), Call_spec 1 11, Spec_fulfilled 1] @
       New_TestRunner (runner_for sample_tester
          [(10, \<lparr> component = 1, scope_waitTime = Some 2000,
                   testCases = [\<lparr> description = ''logs in'', body = Resolves 10 \<rparr>] \<rparr>),
           (11, \<lparr> component = 1, scope_waitTime = Some 2000, testCases = [] \<rparr>)]) #
       [Call_run (runner_for sample_tester
          [(10, \<lparr> component = 1, scope_waitTime = Some 2000,
                   testCases = [\<lparr> description = ''logs in'', body = Resolves 10 \<rparr>] \<rparr>),
           (11, \<lparr> component = 1, scope_waitTime = Some 2000, testCases = [] \<rparr>)])]
   \<and> Call_spec 0 10 \<in> set [New_TestScope 10 1 (Some 2000), Call_spec 0 10, Spec_fulfilled 0,
        New_TestScope 11 1 (Some 2000), Call_spec 1 11, Spec_fulfilled 1]
   \<and> Spec_fulfilled 0 \<in> set [New_TestScope 10 1 (Some 2000), Call_spec 0 10, Spec_fulfilled 0,
        New_TestScope 11 1 (Some 2000), Call_spec 1 11, Spec_fulfilled 1]
   \<and> Call_spec 1 11 \<in> set [New_TestScope 10 1 (Some 2000), Call_spec 0 10, Spec_fulfilled 0,
        New_TestScope 11 1 (Some 2000), Call_spec 1 11, Spec_fulfilled 1]
   \<and> Spec_fulfilled 1 \<in> set [New_TestScope 10 1 (Some 2000), Call_spec 0 10, Spec_fulfilled 0,
        New_TestScope 11 1 (Some 2000), Call_spec 1 11, Spec_fulfilled 1]"
proof -
  have h1: "specs (props sample_tester) = Some [sample_spec_login, sample_spec_empty]"
    by (simp add: sample_defs)
  have h3: "is_runner_event (New_TestRunner r)" for r
    by simp
  from runner_after_all_specs [OF h1 sample_trace h3]
  show ?thesis using h1 sample_trace by simp
qed

lemma takeWhile_all: "length (takeWhile P xs) = length xs \<longleftrightarrow> list_all P xs"
  by (induction xs) auto

text \<open>
  How the promise of \<^verbatim>\<open>runTests\<close> settles: it rejects with the error of the first spec
  that does not fulfil.
\<close>

lemma loop_outcome:
  "\<not> list_all (fulfils t) ss \<Longrightarrow>
     snd (snd (runTests_loop t ss i a suites)) =
       Inl (projl ((ss ! length (takeWhile (fulfils t) ss)) (fresh_scope t)))"
proof (induction ss arbitrary: i a suites)
  case Nil
  then show ?case by simp
next
  case (Cons s rest)
  show ?case
  proof (cases "s (fresh_scope t)")
    case (Inl e)
    then show ?thesis by (simp add: fulfils_def fresh_scope_def)
  next
    case (Inr registered)
    then have "fulfils t s"
      by (simp add: fulfils_def)
    with Cons.prems have "\<not> list_all (fulfils t) rest"
      by simp
    note ih = Cons.IH [OF this, of "Suc i" "Suc a" "suites @ [(a, registered)]"]
    obtain resumed later outcome where
      rest: "runTests_loop t rest (Suc i) (Suc a) (suites @ [(a, registered)])
               = (resumed, later, outcome)"
      by (cases "runTests_loop t rest (Suc i) (Suc a) (suites @ [(a, registered)])") auto
    from Inr have call: "s (new_TestScope (self t) (waitTime (props t))) = Inr registered"
      by (simp add: fresh_scope_def)
    from \<open>fulfils t s\<close> ih rest call show ?thesis
      by simp
  qed
qed

text \<open>
  C2. As stated for every list of specs, the property fails: a spec that throws, or whose promise rejects, ends
  \<^verbatim>\<open>runTests\<close>, and the specs after it are never called. What holds: the specs are called
  in the order supplied, each at most once, each with a scope constructed for it (a new
  address, bound to this Tester and to the \<^verbatim>\<open>waitTime\<close> prop), up to the first spec that
  does not fulfil, where \<^verbatim>\<open>runTests\<close> stops with no runner constructed and its promise
  rejects with the error of that spec. When every spec
  fulfils, each is called exactly once and the runner is constructed with the scopes in
  the order of the specs, and run.
\<close>

theorem runTests_calls_specs_in_order:
  assumes "specs (props t) = Some ss"
  shows "(list_all (fulfils t) ss \<longrightarrow>
           runTests_trace t a =
             concat (map (\<lambda>i. spec_events t i (a + i)) [0..<length ss]) @
             [New_TestRunner (runner_for t
                (map (\<lambda>i. (a + i, projr ((ss ! i) (fresh_scope t)))) [0..<length ss])),
              Call_run (runner_for t
                (map (\<lambda>i. (a + i, projr ((ss ! i) (fresh_scope t)))) [0..<length ss]))])
       \<and> (\<not> list_all (fulfils t) ss \<longrightarrow>
           runTests_trace t a =
             concat (map (\<lambda>i. spec_events t i (a + i)) [0..<length (takeWhile (fulfils t) ss)]) @
             [New_TestScope (a + length (takeWhile (fulfils t) ss)) (self t) (waitTime (props t)),
              Call_spec (length (takeWhile (fulfils t) ss)) (a + length (takeWhile (fulfils t) ss))]
           \<and> snd (snd (runTests t a)) =
               Inl (projl ((ss ! length (takeWhile (fulfils t) ss)) (fresh_scope t))))"
proof (cases "list_all (fulfils t) ss")
  case True
  then have "length (takeWhile (fulfils t) ss) = length ss"
    by (simp add: takeWhile_all)
  with True assms loop_trace_closed_form [of t ss 0 a "[]"] show ?thesis
    by (simp add: runTests_trace_def runTests_def Let_def)
next
  case False
  then have "length (takeWhile (fulfils t) ss) \<noteq> length ss"
    by (simp add: takeWhile_all)
  with False assms loop_trace_closed_form [of t ss 0 a "[]"]
    loop_outcome [OF False, of 0 a "[]"] show ?thesis
    by (simp add: runTests_trace_def runTests_def Let_def)
qed

theorem runTests_calls_specs_in_order_witness:
  "specs (props sample_tester) = Some [sample_spec_login, sample_spec_empty]
   \<and> list_all (fulfils sample_tester) [sample_spec_login, sample_spec_empty]
   \<and> runTests_trace sample_tester 10 =
       [New_TestScope 10 1 (Some 2000), Call_spec 0 10, Spec_fulfilled 0,
        New_TestScope 11 1 (Some 2000), Call_spec 1 11, Spec_fulfilled 1,
        New_TestRunner (runner_for sample_tester
          [(10, \<lparr> component = 1, scope_waitTime = Some 2000,
                   testCases = [\<lparr> description = ''logs in'', body = Resolves 10 \<rparr>] \<rparr>),
           (11, \<lparr> component = 1, scope_waitTime = Some 2000, testCases = [] \<rparr>)]),
        Call_run (runner_for sample_tester
          [(10, \<lparr> component = 1, scope_waitTime = Some 2000,
                   testCases = [\<lparr> description = ''logs in'', body = Resolves 10 \<rparr>] \<rparr>),
           (11, \<lparr> component = 1, scope_waitTime = Some 2000, testCases = [] \<rparr>)])]
   \<and> specs (props sample_tester_throwing)
        = Some [sample_spec_login, sample_spec_throws, sample_spec_empty]
   \<and> \<not> list_all (fulfils sample_tester_throwing)
          [sample_spec_login, sample_spec_throws, sample_spec_empty]
   \<and> runTests_trace sample_tester_throwing 10 =
       [New_TestScope 10 1 (Some 2000), Call_spec 0 10, Spec_fulfilled 0,
        New_TestScope 11 1 (Some 2000), Call_spec 1 11]
   \<and> snd (snd (runTests sample_tester_throwing 10)) = Inl (Thrown ''spec failed'')"
proof -
  have h1: "specs (props sample_tester) = Some [sample_spec_login, sample_spec_empty]"
    by (simp add: sample_defs)
  have h2: "specs (props sample_tester_throwing)
              = Some [sample_spec_login, sample_spec_throws, sample_spec_empty]"
    by (simp add: sample_defs)
  have up: "[0..<2] = [0, Suc 0]"
    by (simp add: upt_rec)
  show ?thesis
    using runTests_calls_specs_in_order [OF h1, of 10]
      runTests_calls_specs_in_order [OF h2, of 10] h1 h2
    by (simp add: fulfils_def fresh_scope_def spec_events_def sample_defs up)
qed

text \<open>
  The sample component with a throwing second spec: the third spec is never called, no
  runner is constructed, and the promise of \<^verbatim>\<open>runTests\<close> rejects.
\<close>

theorem spec_after_throwing_spec_never_called:
  "specs (props sample_tester_throwing)
     = Some [sample_spec_login, sample_spec_throws, sample_spec_empty]
   \<and> runTests_trace sample_tester_throwing 10 =
       [New_TestScope 10 1 (Some 2000), Call_spec 0 10, Spec_fulfilled 0,
        New_TestScope 11 1 (Some 2000), Call_spec 1 11]
   \<and> Call_spec 2 12 \<notin> set (runTests_trace sample_tester_throwing 10)
   \<and> \<not> list_ex is_runner_event (runTests_trace sample_tester_throwing 10)
   \<and> snd (snd (runTests sample_tester_throwing 10)) = Inl (Thrown ''spec failed'')"
  by (simp add: sample_trace_throwing) (simp add: runTests_def sample_defs)

section \<open>componentDidMount\<close>

text \<open>
  C4. A sink that supports the realtime mode is a reporter that is no function, whose
  \<^verbatim>\<open>type\<close> is equal to "realtime" and which has the \<^verbatim>\<open>onStart\<close> method to call. With
  such a reporter \<^verbatim>\<open>componentDidMount\<close> invokes \<^verbatim>\<open>onStart\<close> exactly once, and before
  \<^verbatim>\<open>run\<close> is called on any runner that has a test case: the first turn of \<^verbatim>\<open>runTests\<close>
  reaches the runner only when there is no spec, hence no case. With a function
  reporter, or one whose \<^verbatim>\<open>type\<close> is not equal to "realtime", \<^verbatim>\<open>onStart\<close> is never
  invoked.
\<close>

theorem onStart_before_any_test_case:
  "(\<not> instanceof_Function (this_reporter t)
      \<and> get_property (this_reporter t) ''type'' = Inr ty \<and> equals_realtime rt ty = Inr True
      \<and> get_property (this_reporter t) ''onStart'' = Inr (JSFunction f)
      \<longrightarrow> length (filter (\<lambda>ev. ev = Call_onStart) (fst (componentDidMount rt t a))) = 1
          \<and> (fst (componentDidMount rt t a) = pre @ Call_run r # post \<and> has_test_case r
               \<longrightarrow> Call_onStart \<in> set pre))
   \<and> (instanceof_Function (this_reporter t)
        \<or> get_property (this_reporter t) ''type'' = Inr ty \<and> equals_realtime rt ty = Inr False
      \<longrightarrow> Call_onStart \<notin> set (fst (componentDidMount rt t a)))"
proof -
  obtain now later outcome where rt: "runTests t a = (now, later, outcome)"
    by (cases "runTests t a") auto
  have none: "Call_onStart \<notin> set (now @ concat later)"
  proof (cases "specs (props t)")
    case None
    with rt show ?thesis by (simp add: runTests_def)
  next
    case (Some ss)
    with rt loop_no_onStart [of t ss 0 a "[]"] show ?thesis
      by (simp add: runTests_def in_order_def)
  qed
  have first: "Call_run r \<in> set now \<Longrightarrow> \<not> has_test_case r"
  proof (cases "specs (props t)")
    case None
    assume "Call_run r \<in> set now"
    with None rt show ?thesis by (simp add: runTests_def)
  next
    case (Some ss)
    assume "Call_run r \<in> set now"
    with Some rt loop_first_turn_run [of r t ss 0 a "[]"] show ?thesis
      by (simp add: runTests_def has_test_case_def)
  qed
  have before: "Call_onStart \<in> set pre"
    if "now @ [Call_onStart] @ concat later = pre @ Call_run r # post" and "has_test_case r"
  proof -
    from that first have "Call_run r \<notin> set now" by blast
    with that(1) split_after_prefix [of now "[Call_onStart] @ concat later" pre "Call_run r" post]
    obtain pre' where "pre = now @ pre'" and "[Call_onStart] @ concat later = pre' @ Call_run r # post"
      by blast
    then show ?thesis by (cases pre') auto
  qed
  have once: "length (filter (\<lambda>ev. ev = Call_onStart) (now @ [Call_onStart] @ concat later)) = 1"
  proof -
    have "filter (\<lambda>ev. ev = Call_onStart) xs = []" if "Call_onStart \<notin> set xs" for xs
      using that by (induction xs) auto
    with none show ?thesis by simp
  qed
  have called: "fst (componentDidMount rt t a) = now @ [Call_onStart] @ concat later"
    if "\<not> instanceof_Function (this_reporter t)"
      and "get_property (this_reporter t) ''type'' = Inr ty"
      and "equals_realtime rt ty = Inr True"
      and "get_property (this_reporter t) ''onStart'' = Inr (JSFunction f)"
    using that rt
    by (cases "call_function rt (JSFunction f)")
       (simp_all add: componentDidMount_def call_onStart_def)
  have not_called: "fst (componentDidMount rt t a) = now @ concat later"
    if "instanceof_Function (this_reporter t)
        \<or> get_property (this_reporter t) ''type'' = Inr ty \<and> equals_realtime rt ty = Inr False"
    using that rt by (auto simp: componentDidMount_def)
  show ?thesis
    using none before once called not_called by auto
qed

lemma sample_mount:
  "fst (componentDidMount sample_runtime sample_tester 10) =
     [New_TestScope 10 1 (Some 2000), Call_spec 0 10, Call_onStart, Spec_fulfilled 0,
      New_TestScope 11 1 (Some 2000), Call_spec 1 11, Spec_fulfilled 1,
      New_TestRunner (runner_for sample_tester
        [(10, \<lparr> component = 1, scope_waitTime = Some 2000,
                 testCases = [\<lparr> description = ''logs in'', body = Resolves 10 \<rparr>] \<rparr>),
         (11, \<lparr> component = 1, scope_waitTime = Some 2000, testCases = [] \<rparr>)])] @
     Call_run (runner_for sample_tester
        [(10, \<lparr> component = 1, scope_waitTime = Some 2000,
                 testCases = [\<lparr> description = ''logs in'', body = Resolves 10 \<rparr>] \<rparr>),
         (11, \<lparr> component = 1, scope_waitTime = Some 2000, testCases = [] \<rparr>)]) # []"
  by (simp add: componentDidMount_def call_onStart_def runTests_def sample_defs
        sample_runtime_def sample_sink_def Let_def)

theorem onStart_before_any_test_case_witness:
  "\<not> instanceof_Function (this_reporter sample_tester)
   \<and> get_property (this_reporter sample_tester) ''type'' = Inr (JSString ''realtime'')
   \<and> equals_realtime sample_runtime (JSString ''realtime'') = Inr True
   \<and> get_property (this_reporter sample_tester) ''onStart'' = Inr (JSFunction ''onStart'')
   \<and> length (filter (\<lambda>ev. ev = Call_onStart)
        (fst (componentDidMount sample_runtime sample_tester 10))) = 1
   \<and> fst (componentDidMount sample_runtime sample_tester 10) =
       [New_TestScope 10 1 (Some 2000), Call_spec 0 10, Call_onStart, Spec_fulfilled 0,
        New_TestScope 11 1 (Some 2000), Call_spec 1 11, Spec_fulfilled 1,
        New_TestRunner (runner_for sample_tester
          [(10, \<lparr> component = 1, scope_waitTime = Some 2000,
                   testCases = [\<lparr> description = ''logs in'', body = Resolves 10 \<rparr>] \<rparr>),
           (11, \<lparr> component = 1, scope_waitTime = Some 2000, testCases = [] \<rparr>)])] @
       Call_run (runner_for sample_tester
          [(10, \<lparr> component = 1, scope_waitTime = Some 2000,
                   testCases = [\<lparr> description = ''logs in'', body = Resolves 10 \<rparr>] \<rparr>),
           (11, \<lparr> component = 1, scope_waitTime = Some 2000, testCases = [] \<rparr>)]) # []
   \<and> has_test_case (runner_for sample_tester
        [(10, \<lparr> component = 1, scope_waitTime = Some 2000,
                 testCases = [\<lparr> description = ''logs in'', body = Resolves 10 \<rparr>] \<rparr>),
         (11, \<lparr> component = 1, scope_waitTime = Some 2000, testCases = [] \<rparr>)])
   \<and> Call_onStart \<in> set
        [New_TestScope 10 1 (Some 2000), Call_spec 0 10, Call_onStart, Spec_fulfilled 0,
         New_TestScope 11 1 (Some 2000), Call_spec 1 11, Spec_fulfilled 1,
         New_TestRunner (runner_for sample_tester
           [(10, \<lparr> component = 1, scope_waitTime = Some 2000,
                    testCases = [\<lparr> description = ''logs in'', body = Resolves 10 \<rparr>] \<rparr>),
            (11, \<lparr> component = 1, scope_waitTime = Some 2000, testCases = [] \<rparr>)])]
   \<and> instanceof_Function (this_reporter (sample_tester \<lparr> this_reporter := JSFunction ''report'' \<rparr>))
   \<and> Call_onStart \<notin> set (fst (componentDidMount sample_runtime
          (sample_tester \<lparr> this_reporter := JSFunction ''report'' \<rparr>) 10))
   \<and> get_property (this_reporter (sample_tester
          \<lparr> this_reporter := JSObject [(''type'', JSString ''deferred'')] \<rparr>)) ''type''
        = Inr (JSString ''deferred'')
   \<and> equals_realtime sample_runtime (JSString ''deferred'') = Inr False
   \<and> Call_onStart \<notin> set (fst (componentDidMount sample_runtime
          (sample_tester \<lparr> this_reporter := JSObject [(''type'', JSString ''deferred'')] \<rparr>) 10))"
proof -
  have c1: "\<not> instanceof_Function (this_reporter sample_tester)"
    and c2: "get_property (this_reporter sample_tester) ''type'' = Inr (JSString ''realtime'')"
    and c3: "equals_realtime sample_runtime (JSString ''realtime'') = Inr True"
    and c4: "get_property (this_reporter sample_tester) ''onStart'' = Inr (JSFunction ''onStart'')"
    and c5: "instanceof_Function
               (this_reporter (sample_tester \<lparr> this_reporter := JSFunction ''report'' \<rparr>))"
    and c6: "get_property (this_reporter (sample_tester
               \<lparr> this_reporter := JSObject [(''type'', JSString ''deferred'')] \<rparr>)) ''type''
             = Inr (JSString ''deferred'')"
    and c7: "equals_realtime sample_runtime (JSString ''deferred'') = Inr False"
    by (simp_all add: sample_tester_def sample_sink_def)
  have c8: "has_test_case (runner_for sample_tester
        [(10, \<lparr> component = 1, scope_waitTime = Some 2000,
                 testCases = [\<lparr> description = ''logs in'', body = Resolves 10 \<rparr>] \<rparr>),
         (11, \<lparr> component = 1, scope_waitTime = Some 2000, testCases = [] \<rparr>)])"
    by (simp add: has_test_case_def runner_for_def)
  from onStart_before_any_test_case
         [of sample_tester "JSString ''realtime''" sample_runtime "''onStart''" 10
            "[New_TestScope 10 1 (Some 2000), Call_spec 0 10, Call_onStart, Spec_fulfilled 0,
              New_TestScope 11 1 (Some 2000), Call_spec 1 11, Spec_fulfilled 1,
              New_TestRunner (runner_for sample_tester
                [(10, \<lparr> component = 1, scope_waitTime = Some 2000,
                         testCases = [\<lparr> description = ''logs in'', body = Resolves 10 \<rparr>] \<rparr>),
                 (11, \<lparr> component = 1, scope_waitTime = Some 2000, testCases = [] \<rparr>)])]"
            "runner_for sample_tester
                [(10, \<lparr> component = 1, scope_waitTime = Some 2000,
                         testCases = [\<lparr> description = ''logs in'', body = Resolves 10 \<rparr>] \<rparr>),
                 (11, \<lparr> component = 1, scope_waitTime = Some 2000, testCases = [] \<rparr>)]"
            "[]"]
       onStart_before_any_test_case
         [of "sample_tester \<lparr> this_reporter := JSFunction ''report'' \<rparr>" JSUndefined
             sample_runtime _ 10]
       onStart_before_any_test_case
         [of "sample_tester \<lparr> this_reporter := JSObject [(''type'', JSString ''deferred'')] \<rparr>"
             "JSString ''deferred''" sample_runtime _ 10]
  show ?thesis
    using c1 c2 c3 c4 c5 c6 c7 c8 sample_mount by simp
qed

section \<open>clearAsync\<close>

text \<open>
  C3. The promise of \<^verbatim>\<open>clearAsync\<close> always fulfils. Unless \<^verbatim>\<open>clearAsyncStorage\<close> is set
  it calls nothing and leaves the store as it is. When it is set, it asks for all keys
  and removes them, which leaves the store empty; when either call fails, the error is
  caught and the only further effect is the warning on the console.
\<close>

theorem clearAsync_never_rejects:
  "snd (snd (clearAsync t st)) = Inr ()
   \<and> (clearAsyncStorage (props t) \<noteq> Some True \<longrightarrow> clearAsync t st = ([], st, Inr ()))
   \<and> (clearAsyncStorage (props t) = Some True \<longrightarrow>
        (getAllKeys_fails st = None \<and> multiRemove_fails st = None \<longrightarrow>
           fst (clearAsync t st) = [Call_getAllKeys, Call_multiRemove (map fst (entries st))]
           \<and> entries (fst (snd (clearAsync t st))) = [])
      \<and> (getAllKeys_fails st = Some e \<longrightarrow>
           fst (clearAsync t st) =
             [Call_getAllKeys, Console_warn ''[Cavy] failed to clear AsyncStorage:'' (Some e)])
      \<and> (getAllKeys_fails st = None \<and> multiRemove_fails st = Some e \<longrightarrow>
           fst (clearAsync t st) =
             [Call_getAllKeys, Call_multiRemove (map fst (entries st)),
              Console_warn ''[Cavy] failed to clear AsyncStorage:'' (Some e)]))"
proof -
  have emptied: "filter (\<lambda>(k, v). k \<notin> fst ` set xs) xs = []" for xs :: "(string \<times> string) list"
    by (force simp: filter_empty_conv)
  show ?thesis
    by (auto simp: clearAsync_def clear_attempt_def getAllKeys_def multiRemove_def emptied
             split: option.splits)
qed

theorem clearAsync_never_rejects_witness:
  "clearAsyncStorage (props sample_tester) \<noteq> Some True
   \<and> clearAsync sample_tester sample_storage = ([], sample_storage, Inr ())
   \<and> clearAsyncStorage (props sample_tester_clearing) = Some True
   \<and> getAllKeys_fails sample_storage = None \<and> multiRemove_fails sample_storage = None
   \<and> fst (clearAsync sample_tester_clearing sample_storage)
        = [Call_getAllKeys, Call_multiRemove [''token'', ''user'']]
   \<and> entries (fst (snd (clearAsync sample_tester_clearing sample_storage))) = []
   \<and> snd (snd (clearAsync sample_tester_clearing sample_storage)) = Inr ()
   \<and> getAllKeys_fails (sample_storage \<lparr> getAllKeys_fails := Some (Thrown ''no store'') \<rparr>)
        = Some (Thrown ''no store'')
   \<and> fst (clearAsync sample_tester_clearing
        (sample_storage \<lparr> getAllKeys_fails := Some (Thrown ''no store'') \<rparr>))
      = [Call_getAllKeys,
         Console_warn ''[Cavy] failed to clear AsyncStorage:'' (Some (Thrown ''no store''))]
   \<and> snd (snd (clearAsync sample_tester_clearing
        (sample_storage \<lparr> getAllKeys_fails := Some (Thrown ''no store'') \<rparr>))) = Inr ()"
proof -
  have off: "clearAsyncStorage (props sample_tester) \<noteq> Some True"
    and on: "clearAsyncStorage (props sample_tester_clearing) = Some True"
    by (simp_all add: sample_defs)
  have ok: "getAllKeys_fails sample_storage = None \<and> multiRemove_fails sample_storage = None"
    and keys: "map fst (entries sample_storage) = [''token'', ''user'']"
    by (simp_all add: sample_storage_def)
  from clearAsync_never_rejects [of sample_tester sample_storage]
       clearAsync_never_rejects [of sample_tester_clearing sample_storage]
       clearAsync_never_rejects
         [of sample_tester_clearing
             "sample_storage \<lparr> getAllKeys_fails := Some (Thrown ''no store'') \<rparr>"
             "Thrown ''no store''"]
  show ?thesis
    using off on ok keys by simp
qed

section \<open>reRender and render\<close>

text \<open>
  C7. As stated for every call, the property fails: the key is the number \<^verbatim>\<open>Math.random()\<close> returns,
  and nothing keeps that number apart from the key in place; when they are equal the
  state is unchanged and nothing is remounted. What holds: \<^verbatim>\<open>reRender\<close> sets the key to
  the number drawn and changes nothing else of the component; the provider is rendered
  with that key and otherwise as before, and it is remounted exactly when the number
  differs from the previous key.
\<close>

theorem reRender_sets_key:
  "key (state (reRender random t)) = random
   \<and> self (reRender random t) = self t
   \<and> props (reRender random t) = props t
   \<and> testHookStore (reRender random t) = testHookStore t
   \<and> this_reporter (reRender random t) = this_reporter t
   \<and> render (reRender random t) = map_sum id (\<lambda>el. el \<lparr> element_key := random \<rparr>) (render t)
   \<and> (render t = Inr before \<and> render (reRender random t) = Inr after \<longrightarrow>
        remounts before after = (random \<noteq> key (state t)))"
  by (auto simp: reRender_def setState_key_def render_def remounts_def split: sum.splits)

lemma sample_render:
  "render sample_tester =
     Inr \<lparr> element_key = 1 / 2, element_value = Some 7, element_child = ReactElement ''App'' \<rparr>"
  by (simp add: render_def sample_defs)

theorem reRender_sets_key_witness:
  "render sample_tester =
     Inr \<lparr> element_key = 1 / 2, element_value = Some 7, element_child = ReactElement ''App'' \<rparr>
   \<and> render (reRender (3 / 4) sample_tester) =
     Inr \<lparr> element_key = 3 / 4, element_value = Some 7, element_child = ReactElement ''App'' \<rparr>
   \<and> remounts
        \<lparr> element_key = 1 / 2, element_value = Some 7, element_child = ReactElement ''App'' \<rparr>
        \<lparr> element_key = 3 / 4, element_value = Some 7, element_child = ReactElement ''App'' \<rparr>"
proof -
  have after: "render (reRender (3 / 4) sample_tester) =
     Inr \<lparr> element_key = 3 / 4, element_value = Some 7, element_child = ReactElement ''App'' \<rparr>"
    by (simp add: render_def reRender_def setState_key_def sample_defs)
  have old: "key (state sample_tester) = 1 / 2"
    by (simp add: sample_tester_def)
  from reRender_sets_key
         [of "3 / 4" sample_tester
             "\<lparr> element_key = 1 / 2, element_value = Some 7, element_child = ReactElement ''App'' \<rparr>"
             "\<lparr> element_key = 3 / 4, element_value = Some 7, element_child = ReactElement ''App'' \<rparr>"]
  show ?thesis
    using sample_render after old by simp
qed

text \<open>
  The sample component, whose key is 1/2, when \<^verbatim>\<open>Math.random()\<close> returns 1/2 again.
\<close>

theorem reRender_same_number_no_remount:
  "key (state sample_tester) = 1 / 2
   \<and> reRender (1 / 2) sample_tester = sample_tester
   \<and> render sample_tester =
     Inr \<lparr> element_key = 1 / 2, element_value = Some 7, element_child = ReactElement ''App'' \<rparr>
   \<and> render (reRender (1 / 2) sample_tester) =
     Inr \<lparr> element_key = 1 / 2, element_value = Some 7, element_child = ReactElement ''App'' \<rparr>
   \<and> \<not> remounts
        \<lparr> element_key = 1 / 2, element_value = Some 7, element_child = ReactElement ''App'' \<rparr>
        \<lparr> element_key = 1 / 2, element_value = Some 7, element_child = ReactElement ''App'' \<rparr>"
  by (simp add: render_def reRender_def setState_key_def remounts_def sample_defs)

text \<open>
  C10. With a single element as its child, \<^verbatim>\<open>render\<close> returns the context provider with
  the key of the state, the registry as its value and that element as its child. With no
  child, or with an array of children (which is what two or more are), \<^verbatim>\<open>Children.only\<close>
  throws, and so does \<^verbatim>\<open>render\<close>.
\<close>

theorem render_requires_one_child:
  "(children (props t) = ReactElement e \<longrightarrow>
      render t = Inr \<lparr> element_key = key (state t), element_value = testHookStore t,
                       element_child = ReactElement e \<rparr>)
   \<and> (children (props t) = ReactEmpty \<longrightarrow> isl (render t))
   \<and> (children (props t) = ReactArray cs \<longrightarrow> isl (render t))"
  by (simp add: render_def)

theorem render_requires_one_child_witness:
  "children (props sample_tester) = ReactElement ''App''
   \<and> render sample_tester =
       Inr \<lparr> element_key = key (state sample_tester),
             element_value = testHookStore sample_tester,
             element_child = ReactElement ''App'' \<rparr>
   \<and> isl (render (sample_tester \<lparr> props := (props sample_tester) \<lparr> children := ReactEmpty \<rparr> \<rparr>))
   \<and> isl (render (sample_tester \<lparr> props := (props sample_tester)
          \<lparr> children := ReactArray [ReactElement ''App'', ReactElement ''Footer''] \<rparr> \<rparr>))"
proof -
  have one: "children (props sample_tester) = ReactElement ''App''"
    by (simp add: sample_defs)
  from render_requires_one_child [of sample_tester "''App''"]
       render_requires_one_child
         [of "sample_tester \<lparr> props := (props sample_tester) \<lparr> children := ReactEmpty \<rparr> \<rparr>"]
       render_requires_one_child
         [of "sample_tester \<lparr> props := (props sample_tester)
                \<lparr> children := ReactArray [ReactElement ''App'', ReactElement ''Footer''] \<rparr> \<rparr>"
             _ "[ReactElement ''App'', ReactElement ''Footer'']"]
  show ?thesis
    using one by simp
qed

section \<open>The registry\<close>

lemma perform_frame:
  "perform c (t, w) = (t', w') \<Longrightarrow>
     testHookStore t' = testHookStore t \<and> self t' = self t \<and> registries w' = registries w"
  by (cases c)
     (auto simp: record_events_def reRender_def setState_key_def split: prod.splits)

lemma perform_all_frame:
  "perform_all calls (t, w) = (t', w') \<Longrightarrow>
     testHookStore t' = testHookStore t \<and> self t' = self t \<and> registries w' = registries w"
proof (induction calls arbitrary: t w)
  case Nil
  then show ?case by (simp add: perform_all_def)
next
  case (Cons c calls)
  obtain t1 w1 where step: "perform c (t, w) = (t1, w1)"
    by (cases "perform c (t, w)") auto
  with Cons.prems have "perform_all calls (t1, w1) = (t', w')"
    by (simp add: perform_all_def)
  with Cons.IH [of t1 w1] perform_frame [OF step] show ?case by simp
qed

lemma runTests_passes_this:
  "(New_TestScope b c wt \<in> set (runTests_trace t a) \<longrightarrow> c = self t)
   \<and> (New_TestRunner r \<in> set (runTests_trace t a) \<longrightarrow> arg_component r = self t)"
proof (cases "specs (props t)")
  case None
  then show ?thesis by (simp add: runTests_trace_def runTests_def in_order_def)
next
  case (Some ss)
  then show ?thesis
    using loop_trace_closed_form [of t ss 0 a "[]"]
    by (auto simp: runTests_trace_def runTests_def Let_def spec_events_def runner_for_def
             split: if_splits)
qed

text \<open>
  C8. The constructor stores the \<^verbatim>\<open>store\<close> prop in \<^verbatim>\<open>testHookStore\<close>. No method of the
  Tester, in any sequence of calls, assigns that field again or changes a registry in
  the heap. \<^verbatim>\<open>render\<close> passes the same reference as the value of the provider, and the
  scopes and the runner are constructed with the component itself, from which they read
  it.
\<close>

theorem registry_never_mutated:
  "(constructor_Tester rt this random p = (evs, Inr t0) \<longrightarrow> testHookStore t0 = store p)
   \<and> (perform_all calls (t, w) = (t', w') \<longrightarrow>
        testHookStore t' = testHookStore t \<and> registries w' = registries w)
   \<and> (render t = Inr el \<longrightarrow> element_value el = testHookStore t)
   \<and> (New_TestScope b c wt \<in> set (runTests_trace t a) \<longrightarrow> c = self t)
   \<and> (New_TestRunner r \<in> set (runTests_trace t a) \<longrightarrow> arg_component r = self t)"
proof -
  have ctor: "constructor_Tester rt this random p = (evs, Inr t0) \<Longrightarrow> testHookStore t0 = store p"
    by (auto simp: constructor_Tester_def Let_def split: if_splits sum.splits)
  have rend: "render t = Inr el \<Longrightarrow> element_value el = testHookStore t"
    by (auto simp: render_def split: sum.splits)
  show ?thesis
    using ctor rend perform_all_frame [of calls t w t' w'] runTests_passes_this [of b c wt t a r]
    by blast
qed

lemma sample_construction:
  "constructor_Tester sample_runtime 1 (1 / 2) (resolveDefaultProps defaultProps sample_props)
     = ([New_reporter Reporter], Inr sample_tester)"
  by (simp add: constructor_Tester_def Reporter_def sample_defs sample_runtime_def Let_def)

theorem registry_never_mutated_witness:
  "constructor_Tester sample_runtime 1 (1 / 2) (resolveDefaultProps defaultProps sample_props)
     = ([New_reporter Reporter], Inr sample_tester)
   \<and> testHookStore sample_tester = store (resolveDefaultProps defaultProps sample_props)
   \<and> testHookStore (fst (perform_all
        [Do_componentDidMount, Do_reRender (3 / 4), Do_clearAsync, Do_render, Do_runTests]
        (sample_tester_clearing, sample_world))) = Some 7
   \<and> registries (snd (perform_all
        [Do_componentDidMount, Do_reRender (3 / 4), Do_clearAsync, Do_render, Do_runTests]
        (sample_tester_clearing, sample_world))) 7 = Some [(''LoginButton'', 20)]
   \<and> render sample_tester =
       Inr \<lparr> element_key = 1 / 2, element_value = Some 7, element_child = ReactElement ''App'' \<rparr>
   \<and> element_value
        \<lparr> element_key = 1 / 2, element_value = Some 7, element_child = ReactElement ''App'' \<rparr>
       = testHookStore sample_tester
   \<and> New_TestScope 10 1 (Some 2000) \<in> set (runTests_trace sample_tester 10)
   \<and> 1 = self sample_tester"
proof -
  have pair: "perform_all calls s = (fst (perform_all calls s), snd (perform_all calls s))"
    for calls s
    by simp
  have hook: "testHookStore sample_tester_clearing = Some 7"
    and reg: "registries sample_world 7 = Some [(''LoginButton'', 20)]"
    by (simp_all add: sample_defs sample_world_def)
  from registry_never_mutated
         [of sample_runtime 1 "1 / 2" "resolveDefaultProps defaultProps sample_props"
             "[New_reporter Reporter]" sample_tester
             "[Do_componentDidMount, Do_reRender (3 / 4), Do_clearAsync, Do_render, Do_runTests]"
             sample_tester_clearing sample_world
             "fst (perform_all
                [Do_componentDidMount, Do_reRender (3 / 4), Do_clearAsync, Do_render, Do_runTests]
                (sample_tester_clearing, sample_world))"
             "snd (perform_all
                [Do_componentDidMount, Do_reRender (3 / 4), Do_clearAsync, Do_render, Do_runTests]
                (sample_tester_clearing, sample_world))"]
       registry_never_mutated
         [of _ _ _ _ _ _ _ sample_tester _ _ _
             "\<lparr> element_key = 1 / 2, element_value = Some 7, element_child = ReactElement ''App'' \<rparr>"
             10 1 "Some 2000" 10]
  show ?thesis
    using sample_construction sample_render sample_trace hook reg
    by (simp del: perform.simps)
qed

section \<open>The report\<close>

lemma count_status_partition:
  "length rs = count_status Passed rs + count_status Failed rs
                 + count_status TimedOut rs + count_status Skipped rs"
proof (induction rs)
  case Nil
  show ?case by (simp add: count_status_def)
next
  case (Cons r rs)
  then show ?case by (cases "status r") (simp_all add: count_status_def)
qed

text \<open>
  C9. In the report of the scheduler, the total count, which is the number of cases
  declared, is the sum of the counts of the passed, failed, timed out and skipped
  results.
\<close>

theorem report_counts_add_up:
  "totalCount (run_report only_filter timeout suites) =
     passedCount (run_report only_filter timeout suites)
     + failedCount (run_report only_filter timeout suites)
     + timedOutCount (run_report only_filter timeout suites)
     + skippedCount (run_report only_filter timeout suites)"
  using count_status_partition
          [of "map (result_of_case only_filter timeout) (flatten_cases suites)"]
  by (simp add: run_report_def Let_def)

end
